theory Spec2Isabelle
  imports Complex_Main
begin

section \<open>Python values and errors\<close>

text \<open>
  The value \<^verbatim>\<open>json.load\<close> returns: \<^verbatim>\<open>None\<close>, a bool, an int, a float, a str,
  a list or a dict. A dict is kept as an association list read with \<open>map_of\<close>, so a
  list that repeats a key stands for the dict holding the first binding of that key.
  The program never inspects a number; a float is kept as the rational it denotes.
\<close>

datatype json =
    JNull
  | JBool bool
  | JInt int
  | JFloat rat
  | JStr string
  | JArr "json list"
  | JObj "(string \<times> json) list"

text \<open>
  The exceptions the program itself can raise, and \<open>LibraryError\<close> for whatever a
  call into geopandas, matplotlib, contextily, \<^verbatim>\<open>open\<close> or \<^verbatim>\<open>json.load\<close> raises.
  No exception is caught anywhere in the program: each one ends the run.
\<close>

datatype error =
    UnboundLocalError string
  | TypeError
  | AttributeError
  | LibraryError string

definition bind_res :: "error + 'a \<Rightarrow> ('a \<Rightarrow> error + 'b) \<Rightarrow> error + 'b" where
  "bind_res r f = (case r of Inl e \<Rightarrow> Inl e | Inr a \<Rightarrow> f a)"

text \<open>\<^verbatim>\<open>v.get(k, d)\<close>: only a dict has the method.\<close>

fun py_get :: "json \<Rightarrow> string \<Rightarrow> json \<Rightarrow> error + json" where
  "py_get (JObj kvs) k d = Inr (case map_of kvs k of None \<Rightarrow> d | Some v \<Rightarrow> v)"
| "py_get _ k d = Inl AttributeError"

text \<open>
  \<^verbatim>\<open>for item in v\<close>: a list yields its elements, a str its characters, a dict its
  keys; nothing else is iterable.
\<close>

fun py_iter :: "json \<Rightarrow> error + json list" where
  "py_iter (JArr xs) = Inr xs"
| "py_iter (JStr s) = Inr (map (\<lambda>c. JStr [c]) s)"
| "py_iter (JObj kvs) = Inr (map JStr (remdups (map fst kvs)))"
| "py_iter _ = Inl TypeError"

text \<open>\<^verbatim>\<open>v + s\<close> for a str \<open>s\<close>: concatenation when \<open>v\<close> is a str, TypeError otherwise.\<close>

fun py_add_str :: "json \<Rightarrow> string \<Rightarrow> error + string" where
  "py_add_str (JStr p) s = Inr (p @ s)"
| "py_add_str _ s = Inl TypeError"

text \<open>\<^verbatim>\<open>str(n)\<close> for an int: the decimal digits, most significant first, after a minus sign when negative.\<close>

definition digit_char :: "nat \<Rightarrow> char" where
  "digit_char d = ''0123456789'' ! d"

fun str_nat :: "nat \<Rightarrow> string" where
  "str_nat n = (if n < 10 then [digit_char n] else str_nat (n div 10) @ [digit_char (n mod 10)])"

declare str_nat.simps [simp del]

definition py_str_int :: "int \<Rightarrow> string" where
  "py_str_int i = (if i < 0 then CHR ''-'' # str_nat (nat (- i)) else str_nat (nat i))"

section \<open>Geometry collections and the outside world\<close>

text \<open>
  A GeoDataFrame: an ordered sequence of features, each a geometry with its attribute
  fields, and one CRS tag for the whole collection (\<open>None\<close> when undefined). Geometries
  and CRS values belong to the libraries and stay abstract.
\<close>

record 'g feature =
  geometry :: 'g
  properties :: "(string \<times> json) list"

record ('g, 'c) gdf =
  features :: "'g feature list"
  crs :: "'c option"

definition py_len :: "('g, 'c) gdf \<Rightarrow> int" where
  "py_len g = int (length (features g))"

text \<open>The keyword arguments of \<^verbatim>\<open>GeoDataFrame.plot\<close> that the program passes.\<close>

record plot_style =
  color :: string
  alpha :: "rat option"
  edgecolor :: "string option"
  markersize :: "nat option"
  label :: string

text \<open>
  A call into a library runs in the outside world \<open>'x\<close> (the file system, the network,
  matplotlib's figures): it returns a value or raises, and leaves a new world.
\<close>

type_synonym ('x, 'a) io = "'x \<Rightarrow> (error + 'a) \<times> 'x"

definition lift_res :: "error + 'a \<Rightarrow> ('x, 'a) io" where
  "lift_res r = (\<lambda>x. (r, x))"

definition bind_io :: "('x, 'a) io \<Rightarrow> ('a \<Rightarrow> ('x, 'b) io) \<Rightarrow> ('x, 'b) io" where
  "bind_io m f = (\<lambda>x. case m x of (Inl e, x') \<Rightarrow> (Inl e, x') | (Inr a, x') \<Rightarrow> f a x')"

text \<open>
  The library calls of the program, as parameters: none of their code is part of the
  repository. \<open>'a\<close> is matplotlib's axes handle.
  \<^item> \<open>json_load p\<close>: \<^verbatim>\<open>open(p, 'r')\<close> followed by \<^verbatim>\<open>json.load\<close>;
  \<^item> \<open>read_file p\<close>: \<^verbatim>\<open>gpd.read_file(p)\<close>;
  \<^item> \<open>to_crs g c\<close>: \<^verbatim>\<open>g.to_crs(c)\<close>;
  \<^item> \<open>overlay_intersection a b\<close>: \<^verbatim>\<open>gpd.overlay(a, b, how='intersection')\<close>;
  \<^item> \<open>to_file_geojson g p\<close>: \<^verbatim>\<open>g.to_file(p, driver='GeoJSON')\<close>;
  \<^item> \<open>subplots (w, h)\<close>: \<^verbatim>\<open>plt.subplots(figsize=(w, h))\<close>, giving the axes;
  \<^item> \<open>plot g ax st\<close>: \<^verbatim>\<open>g.plot(ax=ax, ...)\<close> with the keywords of \<open>st\<close>;
  \<^item> \<open>add_basemap_osm ax\<close>: \<^verbatim>\<open>ctx.add_basemap(ax, source=ctx.providers.OpenStreetMap.Mapnik)\<close>;
  \<^item> \<open>set_title ax t\<close>, \<open>set_axis_off ax\<close>, \<open>legend\<close>, \<open>savefig p\<close>: the matplotlib calls.
\<close>

record ('g, 'c, 'a, 'x) lib =
  json_load :: "string \<Rightarrow> ('x, json) io"
  read_file :: "json \<Rightarrow> ('x, ('g, 'c) gdf) io"
  to_crs :: "('g, 'c) gdf \<Rightarrow> 'c option \<Rightarrow> ('x, ('g, 'c) gdf) io"
  overlay_intersection :: "('g, 'c) gdf \<Rightarrow> ('g, 'c) gdf \<Rightarrow> ('x, ('g, 'c) gdf) io"
  to_file_geojson :: "('g, 'c) gdf \<Rightarrow> string \<Rightarrow> ('x, unit) io"
  subplots :: "nat \<times> nat \<Rightarrow> ('x, 'a) io"
  plot :: "('g, 'c) gdf \<Rightarrow> 'a \<Rightarrow> plot_style \<Rightarrow> ('x, unit) io"
  add_basemap_osm :: "'a \<Rightarrow> ('x, unit) io"
  set_title :: "'a \<Rightarrow> json \<Rightarrow> ('x, unit) io"
  set_axis_off :: "'a \<Rightarrow> ('x, unit) io"
  legend :: "('x, unit) io"
  savefig :: "json \<Rightarrow> ('x, unit) io"

text \<open>The state of a run: the lines printed so far and the outside world.\<close>

record 'x state =
  stdout :: "string list"
  ext :: 'x

definition in_ext :: "('x, 'a) io \<Rightarrow> ('x state, 'a) io" where
  "in_ext m = (\<lambda>s. case m (ext s) of (r, x') \<Rightarrow> (r, s\<lparr>ext := x'\<rparr>))"

definition py_print :: "string \<Rightarrow> ('x state, unit) io" where
  "py_print line = (\<lambda>s. (Inr (), s\<lparr>stdout := stdout s @ [line]\<rparr>))"

section \<open>The functions of main.py\<close>

definition load_geojson :: "('g, 'c, 'a, 'x) lib \<Rightarrow> json \<Rightarrow> ('x, ('g, 'c) gdf) io" where
  "load_geojson L file_path = read_file L file_path"

definition overlay_maps ::
  "('g, 'c, 'a, 'x) lib \<Rightarrow> ('g, 'c) gdf \<Rightarrow> ('g, 'c) gdf \<Rightarrow> ('x, ('g, 'c) gdf) io" where
  "overlay_maps L flood_risk_gdf property_gdf =
     overlay_intersection L property_gdf flood_risk_gdf"

definition save_geojson :: "('g, 'c, 'a, 'x) lib \<Rightarrow> ('g, 'c) gdf \<Rightarrow> string \<Rightarrow> ('x, unit) io" where
  "save_geojson L g output_path = to_file_geojson L g output_path"

definition plot_and_save_properties ::
  "('g, 'c, 'a, 'x) lib \<Rightarrow> ('g, 'c) gdf \<Rightarrow> ('g, 'c) gdf \<Rightarrow> ('g, 'c) gdf \<Rightarrow> json \<Rightarrow> ('x, unit) io" where
  "plot_and_save_properties L flood_risk_gdf property_gdf at_risk_properties plot_title =
     bind_io (subplots L (12, 10)) (\<lambda>ax.
     bind_io (plot L flood_risk_gdf ax
       \<lparr>color = ''blue'', alpha = Some (2 / 5), edgecolor = Some ''k'',
        markersize = None, label = ''Flood Risk Area''\<rparr>) (\<lambda>_.
     bind_io (plot L property_gdf ax
       \<lparr>color = ''gray'', alpha = None, edgecolor = None,
        markersize = Some 10, label = ''All Properties''\<rparr>) (\<lambda>_.
     bind_io (plot L at_risk_properties ax
       \<lparr>color = ''red'', alpha = None, edgecolor = None,
        markersize = Some 15, label = ''At-Risk Properties''\<rparr>) (\<lambda>_.
     bind_io (add_basemap_osm L ax) (\<lambda>_.
     bind_io (set_title L ax plot_title) (\<lambda>_.
     bind_io (set_axis_off L ax) (\<lambda>_.
     bind_io (legend L) (\<lambda>_.
     savefig L plot_title))))))))"

text \<open>
  The dict \<^verbatim>\<open>extract_config\<close> builds for one entry always has the same four keys, so it
  is a record; each value is whatever the entry holds under the key.
\<close>

record descriptor =
  risk_layer_path :: json
  asset_layer_path :: json
  command_read_out :: json
  plot_title :: json

definition extract_item :: "json \<Rightarrow> error + descriptor" where
  "extract_item item =
     bind_res (py_get item ''risk_layer_path'' (JStr '''')) (\<lambda>r.
     bind_res (py_get item ''asset_layer_path'' (JStr '''')) (\<lambda>a.
     bind_res (py_get item ''command_read_out'' (JStr '''')) (\<lambda>c.
     bind_res (py_get item ''plot_title'' (JStr '''')) (\<lambda>t.
     Inr \<lparr>risk_layer_path = r, asset_layer_path = a, command_read_out = c, plot_title = t\<rparr>))))"

text \<open>The loop of \<^verbatim>\<open>extract_config\<close>, appending to \<^verbatim>\<open>extracted_items\<close>.\<close>

fun extract_loop :: "json list \<Rightarrow> descriptor list \<Rightarrow> error + descriptor list" where
  "extract_loop [] extracted_items = Inr extracted_items"
| "extract_loop (item # rest) extracted_items =
     bind_res (extract_item item) (\<lambda>d. extract_loop rest (extracted_items @ [d]))"

definition extract_config :: "('g, 'c, 'a, 'x) lib \<Rightarrow> string \<Rightarrow> ('x, descriptor list) io" where
  "extract_config L file_path =
     bind_io (json_load L file_path) (\<lambda>config.
     lift_res (
       bind_res (py_get config ''inputs'' (JArr [])) (\<lambda>inputs.
       bind_res (py_iter inputs) (\<lambda>items.
       extract_loop items []))))"

text \<open>
  The local variables of \<^verbatim>\<open>main\<close> that its loop assigns; \<open>None\<close> is a variable not yet
  bound.
\<close>

record locals =
  l_risk_layer_path :: "json option"
  l_asset_layer_path :: "json option"
  l_command_read_out :: "json option"
  l_plot_title :: "json option"

definition unbound :: locals where
  "unbound = \<lparr>l_risk_layer_path = None, l_asset_layer_path = None,
              l_command_read_out = None, l_plot_title = None\<rparr>"

definition bound_to :: "descriptor \<Rightarrow> locals" where
  "bound_to item = \<lparr>l_risk_layer_path = Some (risk_layer_path item),
                    l_asset_layer_path = Some (asset_layer_path item),
                    l_command_read_out = Some (command_read_out item),
                    l_plot_title = Some (plot_title item)\<rparr>"

text \<open>The loop of \<^verbatim>\<open>main\<close> (lines 99 to 103): its body only assigns the four variables.\<close>

fun main_loop :: "descriptor list \<Rightarrow> locals \<Rightarrow> locals" where
  "main_loop [] l = l"
| "main_loop (item # rest) l =
     main_loop rest
       (l\<lparr>l_risk_layer_path := Some (risk_layer_path item),
          l_asset_layer_path := Some (asset_layer_path item),
          l_command_read_out := Some (command_read_out item),
          l_plot_title := Some (plot_title item)\<rparr>)"

text \<open>Reading a local variable: UnboundLocalError when it was never assigned.\<close>

definition read_local :: "string \<Rightarrow> json option \<Rightarrow> error + json" where
  "read_local name v = (case v of None \<Rightarrow> Inl (UnboundLocalError name) | Some j \<Rightarrow> Inr j)"

text \<open>Line 121: \<^verbatim>\<open>print(command_read_out+str(len(at_risk_properties)))\<close>.\<close>

definition report :: "json option \<Rightarrow> ('g, 'c) gdf \<Rightarrow> ('x state, unit) io" where
  "report l_cro at_risk_properties =
     bind_io (lift_res (
       bind_res (read_local ''command_read_out'' l_cro) (\<lambda>cro.
       py_add_str cro (py_str_int (py_len at_risk_properties))))) py_print"

text \<open>Lines 105 to 124 of \<^verbatim>\<open>main\<close>: what runs after the loop, on the variables it left.\<close>

definition main_body :: "('g, 'c, 'a, 'x) lib \<Rightarrow> locals \<Rightarrow> ('x state, unit) io" where
  "main_body L l =
     bind_io (lift_res (
       bind_res (read_local ''plot_title'' (l_plot_title l)) (\<lambda>t.
       py_add_str t ''.json''))) (\<lambda>output_path.
     bind_io (lift_res (read_local ''risk_layer_path'' (l_risk_layer_path l))) (\<lambda>rp.
     bind_io (in_ext (load_geojson L rp)) (\<lambda>risk_layer_gdf.
     bind_io (lift_res (read_local ''asset_layer_path'' (l_asset_layer_path l))) (\<lambda>ap.
     bind_io (in_ext (load_geojson L ap)) (\<lambda>asset_gdf0.
     bind_io (in_ext (to_crs L asset_gdf0 (crs risk_layer_gdf))) (\<lambda>asset_gdf.
     bind_io (in_ext (overlay_maps L risk_layer_gdf asset_gdf)) (\<lambda>at_risk_properties.
     bind_io (in_ext (save_geojson L at_risk_properties output_path)) (\<lambda>_.
     bind_io (report (l_command_read_out l) at_risk_properties) (\<lambda>_.
     bind_io (lift_res (read_local ''plot_title'' (l_plot_title l))) (\<lambda>t.
     in_ext (plot_and_save_properties L risk_layer_gdf asset_gdf at_risk_properties t)))))))))))"

definition main :: "('g, 'c, 'a, 'x) lib \<Rightarrow> ('x state, unit) io" where
  "main L =
     bind_io (in_ext (extract_config L ''config.json'')) (\<lambda>config_items.
     main_body L (main_loop config_items unbound))"

section \<open>What the specification says, in its own words\<close>

text \<open>
  A field of a job descriptor is taken from the entry when the entry has the key, and
  is the empty string otherwise.
\<close>

definition spec_field :: "(string \<times> json) list \<Rightarrow> string \<Rightarrow> json" where
  "spec_field entry k = (if k \<in> dom (map_of entry) then the (map_of entry k) else JStr '''')"

definition spec_descriptor :: "(string \<times> json) list \<Rightarrow> descriptor" where
  "spec_descriptor entry =
     \<lparr>risk_layer_path = spec_field entry ''risk_layer_path'',
      asset_layer_path = spec_field entry ''asset_layer_path'',
      command_read_out = spec_field entry ''command_read_out'',
      plot_title = spec_field entry ''plot_title''\<rparr>"

text \<open>
  The decimal representation of a count: a non-empty string of decimal digits, with no
  leading zero unless it is the single digit zero, whose value is the count.
\<close>

definition digit_val :: "char \<Rightarrow> nat" where
  "digit_val c = of_char c - 48"

definition decimal_value :: "string \<Rightarrow> nat" where
  "decimal_value ds = foldl (\<lambda>acc c. 10 * acc + digit_val c) 0 ds"

definition is_decimal_of :: "string \<Rightarrow> nat \<Rightarrow> bool" where
  "is_decimal_of ds n \<longleftrightarrow>
     ds \<noteq> [] \<and> (\<forall>c \<in> set ds. c \<in> set ''0123456789'')
     \<and> (hd ds = CHR ''0'' \<longrightarrow> ds = ''0'') \<and> decimal_value ds = n"

section \<open>A library that records its calls\<close>

text \<open>
  For concrete runs: the outside world is the list of library calls made so far, every
  call succeeds, every layer read is \<open>one_feature_layer\<close>, and the overlay returns its
  first operand. The entries and the configuration below are the inputs of these runs.
\<close>

datatype call =
    JsonLoad string
  | ReadFile json
  | ToCrs
  | Overlay
  | ToFile string
  | Subplots
  | Plot string
  | AddBasemap
  | SetTitle json
  | SetAxisOff
  | Legend
  | SaveFig json

definition record_call :: "call \<Rightarrow> 'a \<Rightarrow> (call list, 'a) io" where
  "record_call c a = (\<lambda>x. (Inr a, x @ [c]))"

definition one_feature_layer :: "(unit, string) gdf" where
  "one_feature_layer =
     \<lparr>features = [\<lparr>geometry = (), properties = []\<rparr>], crs = Some ''EPSG:4326''\<rparr>"

definition two_feature_layer :: "(unit, string) gdf" where
  "two_feature_layer =
     \<lparr>features = [\<lparr>geometry = (), properties = []\<rparr>, \<lparr>geometry = (), properties = []\<rparr>],
      crs = Some ''EPSG:4326''\<rparr>"

definition recording_lib :: "json \<Rightarrow> (unit, string, unit, call list) lib" where
  "recording_lib config =
     \<lparr>json_load = (\<lambda>p. record_call (JsonLoad p) config),
      read_file = (\<lambda>p. record_call (ReadFile p) one_feature_layer),
      to_crs = (\<lambda>g c. record_call ToCrs (g\<lparr>crs := c\<rparr>)),
      overlay_intersection = (\<lambda>a b. record_call Overlay a),
      to_file_geojson = (\<lambda>g p. record_call (ToFile p) ()),
      subplots = (\<lambda>figsize. record_call Subplots ()),
      plot = (\<lambda>g ax st. record_call (Plot (label st)) ()),
      add_basemap_osm = (\<lambda>ax. record_call AddBasemap ()),
      set_title = (\<lambda>ax t. record_call (SetTitle t) ()),
      set_axis_off = (\<lambda>ax. record_call SetAxisOff ()),
      legend = record_call Legend (),
      savefig = (\<lambda>p. record_call (SaveFig p) ())\<rparr>"

definition first_entry :: "(string \<times> json) list" where
  "first_entry =
     [(''risk_layer_path'', JStr ''risk1.geojson''),
      (''plot_title'', JStr ''first'')]"

definition second_entry :: "(string \<times> json) list" where
  "second_entry =
     [(''risk_layer_path'', JStr ''risk2.geojson''),
      (''asset_layer_path'', JStr ''assets2.geojson''),
      (''command_read_out'', JStr ''At-risk properties: ''),
      (''plot_title'', JStr ''second'')]"

definition two_jobs_config :: "(string \<times> json) list" where
  "two_jobs_config = [(''inputs'', JArr [JObj first_entry, JObj second_entry])]"

definition start :: "call list state" where
  "start = \<lparr>stdout = [], ext = []\<rparr>"

section \<open>The Config Extractor\<close>

lemma py_get_spec_field: "py_get (JObj entry) k (JStr '''') = Inr (spec_field entry k)"
  by (auto simp: spec_field_def domIff split: option.splits)

lemma extract_item_obj: "extract_item (JObj entry) = Inr (spec_descriptor entry)"
  by (simp only: extract_item_def py_get_spec_field bind_res_def sum.case spec_descriptor_def)

lemma extract_loop_objs:
  "extract_loop (map JObj entries) acc = Inr (acc @ map spec_descriptor entries)"
  by (induction entries arbitrary: acc) (simp_all add: extract_item_obj bind_res_def)

lemma extract_config_objs:
  assumes "json_load L file_path x = (Inr (JObj config), x')"
    and "map_of config ''inputs'' = None \<and> entries = []
         \<or> map_of config ''inputs'' = Some (JArr (map JObj entries))"
  shows "extract_config L file_path x = (Inr (map spec_descriptor entries), x')"
  using assms
  by (auto simp: extract_config_def bind_io_def lift_res_def bind_res_def extract_loop_objs)

text \<open>
  C2. When the configuration file loads as a JSON object whose \<open>inputs\<close> key is absent
  or holds an array of objects, \<^verbatim>\<open>extract_config\<close> succeeds and returns, in order, one
  descriptor per entry of the array (none when the key is absent); each of the four
  fields is the entry's value under that key when the entry has it and the empty string
  otherwise, so an entry that lacks some or all of the keys never fails. The only
  effect on the outside world is that of loading the file.
\<close>

theorem extract_config_one_descriptor_per_entry:
  assumes "json_load L file_path x = (Inr (JObj config), x')"
    and "map_of config ''inputs'' = None \<and> entries = []
         \<or> map_of config ''inputs'' = Some (JArr (map JObj entries))"
  shows "extract_config L file_path x = (Inr (map spec_descriptor entries), x')
       \<and> length (map spec_descriptor entries) = length entries
       \<and> (\<forall>i < length entries.
            risk_layer_path (map spec_descriptor entries ! i)
              = spec_field (entries ! i) ''risk_layer_path''
          \<and> asset_layer_path (map spec_descriptor entries ! i)
              = spec_field (entries ! i) ''asset_layer_path''
          \<and> command_read_out (map spec_descriptor entries ! i)
              = spec_field (entries ! i) ''command_read_out''
          \<and> plot_title (map spec_descriptor entries ! i)
              = spec_field (entries ! i) ''plot_title'')"
  using extract_config_objs [OF assms] by (simp add: spec_descriptor_def)

theorem extract_config_one_descriptor_per_entry_witness:
  "extract_config (recording_lib (JObj two_jobs_config)) ''config.json'' []
     = (Inr [\<lparr>risk_layer_path = JStr ''risk1.geojson'', asset_layer_path = JStr '''',
              command_read_out = JStr '''', plot_title = JStr ''first''\<rparr>,
             \<lparr>risk_layer_path = JStr ''risk2.geojson'',
              asset_layer_path = JStr ''assets2.geojson'',
              command_read_out = JStr ''At-risk properties: '',
              plot_title = JStr ''second''\<rparr>],
        [JsonLoad ''config.json''])"
proof -
  have h1: "json_load (recording_lib (JObj two_jobs_config)) ''config.json'' []
              = (Inr (JObj two_jobs_config), [JsonLoad ''config.json''])"
    by (simp add: recording_lib_def record_call_def)
  have h2: "map_of two_jobs_config ''inputs'' = None \<and> [first_entry, second_entry] = []
            \<or> map_of two_jobs_config ''inputs''
                = Some (JArr (map JObj [first_entry, second_entry]))"
    by (simp add: two_jobs_config_def)
  have d1: "spec_descriptor first_entry
              = \<lparr>risk_layer_path = JStr ''risk1.geojson'', asset_layer_path = JStr '''',
                 command_read_out = JStr '''', plot_title = JStr ''first''\<rparr>"
    by (simp add: spec_descriptor_def spec_field_def first_entry_def)
  have d2: "spec_descriptor second_entry
              = \<lparr>risk_layer_path = JStr ''risk2.geojson'',
                 asset_layer_path = JStr ''assets2.geojson'',
                 command_read_out = JStr ''At-risk properties: '',
                 plot_title = JStr ''second''\<rparr>"
    by (simp add: spec_descriptor_def spec_field_def second_entry_def)
  from extract_config_one_descriptor_per_entry [OF h1 h2]
  have "extract_config (recording_lib (JObj two_jobs_config)) ''config.json'' []
          = (Inr (map spec_descriptor [first_entry, second_entry]), [JsonLoad ''config.json''])"
    by blast
  then show ?thesis by (simp add: d1 d2)
qed

section \<open>The Driver\<close>

lemma main_loop_last: "items \<noteq> [] \<Longrightarrow> main_loop items l = bound_to (last items)"
proof (induction items arbitrary: l)
  case Nil
  then show ?case by simp
next
  case (Cons item rest)
  show ?case
  proof (cases rest)
    case Nil
    then show ?thesis by (simp add: bound_to_def)
  next
    case (Cons item' rest')
    then show ?thesis using Cons.IH by simp
  qed
qed

lemma main_body_unbound:
  "main_body L unbound s = (Inl (UnboundLocalError ''plot_title''), s)"
  by (simp add: main_body_def unbound_def bind_io_def lift_res_def bind_res_def read_local_def)

lemma main_after_extract:
  assumes "extract_config L ''config.json'' (ext s) = (Inr items, x')"
  shows "main L s = main_body L (main_loop items unbound) (s\<lparr>ext := x'\<rparr>)"
  using assms by (simp add: main_def bind_io_def in_ext_def)

lemma py_str_len: "py_str_int (py_len g) = str_nat (length (features g))"
  by (simp add: py_str_int_def py_len_def)

text \<open>The renderer, when every drawing call but the last succeeds: the calls it makes, in order.\<close>

lemma plot_and_save_properties_run:
  assumes "subplots L (12, 10) x5 = (Inr ax, x6)"
    and "plot L flood_risk_gdf ax
           \<lparr>color = ''blue'', alpha = Some (2 / 5), edgecolor = Some ''k'',
            markersize = None, label = ''Flood Risk Area''\<rparr> x6 = (Inr (), x7)"
    and "plot L property_gdf ax
           \<lparr>color = ''gray'', alpha = None, edgecolor = None,
            markersize = Some 10, label = ''All Properties''\<rparr> x7 = (Inr (), x8)"
    and "plot L at_risk_properties ax
           \<lparr>color = ''red'', alpha = None, edgecolor = None,
            markersize = Some 15, label = ''At-Risk Properties''\<rparr> x8 = (Inr (), x9)"
    and "add_basemap_osm L ax x9 = (Inr (), x10)"
    and "set_title L ax t x10 = (Inr (), x11)"
    and "set_axis_off L ax x11 = (Inr (), x12)"
    and "legend L x12 = (Inr (), x13)"
    and "savefig L t x13 = (r, x14)"
  shows "plot_and_save_properties L flood_risk_gdf property_gdf at_risk_properties t x5
           = (r, x14)"
  using assms by (simp add: plot_and_save_properties_def bind_io_def)

text \<open>
  Lines 105 to 124 on the variables bound to a descriptor whose title and prefix are
  strings, when the library calls up to the write succeed: what is read, reprojected,
  overlaid, written, printed and rendered.
\<close>

lemma main_body_run:
  assumes "plot_title d = JStr title"
    and "command_read_out d = JStr prefix"
    and "read_file L (risk_layer_path d) (ext s0) = (Inr risk_layer_gdf, x1)"
    and "read_file L (asset_layer_path d) x1 = (Inr asset_gdf0, x2)"
    and "to_crs L asset_gdf0 (crs risk_layer_gdf) x2 = (Inr asset_gdf, x3)"
    and "overlay_intersection L asset_gdf risk_layer_gdf x3 = (Inr at_risk_properties, x4)"
    and "to_file_geojson L at_risk_properties (title @ ''.json'') x4 = (Inr (), x5)"
    and "plot_and_save_properties L risk_layer_gdf asset_gdf at_risk_properties (JStr title) x5
           = (r, x14)"
  shows "main_body L (bound_to d) s0
           = (r, s0\<lparr>stdout := stdout s0 @ [prefix @ str_nat (length (features at_risk_properties))],
                    ext := x14\<rparr>)"
  using assms
  by (simp add: main_body_def bound_to_def report_def load_geojson_def overlay_maps_def
      save_geojson_def bind_io_def lift_res_def bind_res_def read_local_def in_ext_def
      py_print_def py_str_len)

text \<open>
  C1. When the configuration loads as an object whose \<open>inputs\<close> array has one or more
  (object) entries, the loop of \<^verbatim>\<open>main\<close> leaves the four variables bound to the fields
  of the descriptor of the last entry, however many entries precede it (the loop over
  all of them ends as the loop over the last one alone does), and the run continues
  on those variables alone: the whole run equals lines 105 to 124 executed on the last
  entry's fields. Spelled out for any library, when the last entry's title and prefix
  are strings and the calls succeed: the risk layer is read from the last entry's
  \<^verbatim>\<open>risk_layer_path\<close> and the asset layer from its \<^verbatim>\<open>asset_layer_path\<close>, the asset layer
  is reprojected to the risk layer's CRS, the overlay takes the reprojected asset
  layer first and the risk layer second, its result is written to the last entry's
  \<^verbatim>\<open>plot_title\<close> followed by \<^verbatim>\<open>.json\<close>, the one line printed is the last entry's
  \<^verbatim>\<open>command_read_out\<close> followed by the count of the result, and the three layers are
  drawn, titled with the last entry's \<^verbatim>\<open>plot_title\<close> and saved under that same name.
  No field of an earlier entry occurs anywhere.
\<close>

theorem main_processes_only_last_descriptor:
  assumes "json_load L ''config.json'' (ext s) = (Inr (JObj config), x')"
    and "map_of config ''inputs'' = Some (JArr (map JObj entries))"
    and "entries \<noteq> []"
  shows "main_loop (map spec_descriptor entries) unbound
           = bound_to (spec_descriptor (last entries))
       \<and> main_loop (map spec_descriptor entries) unbound
           = main_loop [spec_descriptor (last entries)] unbound
       \<and> main L s = main_body L (bound_to (spec_descriptor (last entries))) (s\<lparr>ext := x'\<rparr>)
       \<and> (\<forall>title prefix risk_layer_gdf asset_gdf0 asset_gdf at_risk_properties ax r
             x1 x2 x3 x4 x5 x6 x7 x8 x9 x10 x11 x12 x13 x14.
            spec_field (last entries) ''plot_title'' = JStr title \<longrightarrow>
            spec_field (last entries) ''command_read_out'' = JStr prefix \<longrightarrow>
            read_file L (spec_field (last entries) ''risk_layer_path'') x'
              = (Inr risk_layer_gdf, x1) \<longrightarrow>
            read_file L (spec_field (last entries) ''asset_layer_path'') x1
              = (Inr asset_gdf0, x2) \<longrightarrow>
            to_crs L asset_gdf0 (crs risk_layer_gdf) x2 = (Inr asset_gdf, x3) \<longrightarrow>
            overlay_intersection L asset_gdf risk_layer_gdf x3
              = (Inr at_risk_properties, x4) \<longrightarrow>
            to_file_geojson L at_risk_properties (title @ ''.json'') x4 = (Inr (), x5) \<longrightarrow>
            subplots L (12, 10) x5 = (Inr ax, x6) \<longrightarrow>
            plot L risk_layer_gdf ax
              \<lparr>color = ''blue'', alpha = Some (2 / 5), edgecolor = Some ''k'',
               markersize = None, label = ''Flood Risk Area''\<rparr> x6 = (Inr (), x7) \<longrightarrow>
            plot L asset_gdf ax
              \<lparr>color = ''gray'', alpha = None, edgecolor = None,
               markersize = Some 10, label = ''All Properties''\<rparr> x7 = (Inr (), x8) \<longrightarrow>
            plot L at_risk_properties ax
              \<lparr>color = ''red'', alpha = None, edgecolor = None,
               markersize = Some 15, label = ''At-Risk Properties''\<rparr> x8 = (Inr (), x9) \<longrightarrow>
            add_basemap_osm L ax x9 = (Inr (), x10) \<longrightarrow>
            set_title L ax (JStr title) x10 = (Inr (), x11) \<longrightarrow>
            set_axis_off L ax x11 = (Inr (), x12) \<longrightarrow>
            legend L x12 = (Inr (), x13) \<longrightarrow>
            savefig L (JStr title) x13 = (r, x14) \<longrightarrow>
            main L s
              = (r, s\<lparr>stdout := stdout s
                                @ [prefix @ str_nat (length (features at_risk_properties))],
                      ext := x14\<rparr>))"
proof -
  have e: "extract_config L ''config.json'' (ext s) = (Inr (map spec_descriptor entries), x')"
    using assms(1,2) by (intro extract_config_objs) auto
  have l: "main_loop (map spec_descriptor entries) unbound
             = bound_to (spec_descriptor (last entries))"
    using assms(3) by (simp add: main_loop_last last_map)
  have o: "main_loop [spec_descriptor (last entries)] unbound
             = bound_to (spec_descriptor (last entries))"
    using main_loop_last [of "[spec_descriptor (last entries)]" unbound]
    by (simp del: main_loop.simps)
  have m: "main L s
             = main_body L (bound_to (spec_descriptor (last entries))) (s\<lparr>ext := x'\<rparr>)"
    using main_after_extract [OF e] l by simp
  have run: "main L s
               = (r, s\<lparr>stdout := stdout s
                                 @ [prefix @ str_nat (length (features at_risk_properties))],
                       ext := x14\<rparr>)"
    if "spec_field (last entries) ''plot_title'' = JStr title"
      and "spec_field (last entries) ''command_read_out'' = JStr prefix"
      and "read_file L (spec_field (last entries) ''risk_layer_path'') x'
             = (Inr risk_layer_gdf, x1)"
      and "read_file L (spec_field (last entries) ''asset_layer_path'') x1
             = (Inr asset_gdf0, x2)"
      and "to_crs L asset_gdf0 (crs risk_layer_gdf) x2 = (Inr asset_gdf, x3)"
      and "overlay_intersection L asset_gdf risk_layer_gdf x3 = (Inr at_risk_properties, x4)"
      and "to_file_geojson L at_risk_properties (title @ ''.json'') x4 = (Inr (), x5)"
      and "subplots L (12, 10) x5 = (Inr ax, x6)"
      and "plot L risk_layer_gdf ax
             \<lparr>color = ''blue'', alpha = Some (2 / 5), edgecolor = Some ''k'',
              markersize = None, label = ''Flood Risk Area''\<rparr> x6 = (Inr (), x7)"
      and "plot L asset_gdf ax
             \<lparr>color = ''gray'', alpha = None, edgecolor = None,
              markersize = Some 10, label = ''All Properties''\<rparr> x7 = (Inr (), x8)"
      and "plot L at_risk_properties ax
             \<lparr>color = ''red'', alpha = None, edgecolor = None,
              markersize = Some 15, label = ''At-Risk Properties''\<rparr> x8 = (Inr (), x9)"
      and "add_basemap_osm L ax x9 = (Inr (), x10)"
      and "set_title L ax (JStr title) x10 = (Inr (), x11)"
      and "set_axis_off L ax x11 = (Inr (), x12)"
      and "legend L x12 = (Inr (), x13)"
      and "savefig L (JStr title) x13 = (r, x14)"
    for title prefix risk_layer_gdf asset_gdf0 asset_gdf at_risk_properties ax r
      x1 x2 x3 x4 x5 x6 x7 x8 x9 x10 x11 x12 x13 x14
  proof -
    have p: "plot_and_save_properties L risk_layer_gdf asset_gdf at_risk_properties
               (JStr title) x5 = (r, x14)"
      using that(8-16) by (rule plot_and_save_properties_run)
    have "main_body L (bound_to (spec_descriptor (last entries))) (s\<lparr>ext := x'\<rparr>)
            = (r, (s\<lparr>ext := x'\<rparr>)
                    \<lparr>stdout := stdout (s\<lparr>ext := x'\<rparr>)
                        @ [prefix @ str_nat (length (features at_risk_properties))],
                     ext := x14\<rparr>)"
    proof (rule main_body_run)
      show "plot_title (spec_descriptor (last entries)) = JStr title"
        using that(1) by (simp add: spec_descriptor_def)
      show "command_read_out (spec_descriptor (last entries)) = JStr prefix"
        using that(2) by (simp add: spec_descriptor_def)
      show "read_file L (risk_layer_path (spec_descriptor (last entries)))
              (ext (s\<lparr>ext := x'\<rparr>)) = (Inr risk_layer_gdf, x1)"
        using that(3) by (simp add: spec_descriptor_def)
      show "read_file L (asset_layer_path (spec_descriptor (last entries))) x1
              = (Inr asset_gdf0, x2)"
        using that(4) by (simp add: spec_descriptor_def)
    qed (rule that(5) that(6) that(7) p)+
    with m show ?thesis by simp
  qed
  show ?thesis
    using l o m run by (intro conjI allI impI) (simp_all only:)
qed

theorem main_processes_only_last_descriptor_witness:
  "main (recording_lib (JObj two_jobs_config)) start
   = (Inr (),
      \<lparr>stdout = [''At-risk properties: 1''],
       ext = [JsonLoad ''config.json'',
              ReadFile (JStr ''risk2.geojson''), ReadFile (JStr ''assets2.geojson''),
              ToCrs, Overlay, ToFile ''second.json'', Subplots,
              Plot ''Flood Risk Area'', Plot ''All Properties'', Plot ''At-Risk Properties'',
              AddBasemap, SetTitle (JStr ''second''), SetAxisOff, Legend,
              SaveFig (JStr ''second'')]\<rparr>)"
proof -
  let ?L = "recording_lib (JObj two_jobs_config)"
  let ?es = "[first_entry, second_entry]"
  let ?g = "one_feature_layer\<lparr>crs := crs one_feature_layer\<rparr>"
  let ?w0 = "[JsonLoad ''config.json'']"
  let ?w1 = "?w0 @ [ReadFile (JStr ''risk2.geojson'')]"
  let ?w2 = "?w1 @ [ReadFile (JStr ''assets2.geojson'')]"
  let ?w3 = "?w2 @ [ToCrs]"
  let ?w4 = "?w3 @ [Overlay]"
  let ?w5 = "?w4 @ [ToFile ''second.json'']"
  let ?w6 = "?w5 @ [Subplots]"
  let ?w7 = "?w6 @ [Plot ''Flood Risk Area'']"
  let ?w8 = "?w7 @ [Plot ''All Properties'']"
  let ?w9 = "?w8 @ [Plot ''At-Risk Properties'']"
  let ?w10 = "?w9 @ [AddBasemap]"
  let ?w11 = "?w10 @ [SetTitle (JStr ''second'')]"
  let ?w12 = "?w11 @ [SetAxisOff]"
  let ?w13 = "?w12 @ [Legend]"
  let ?w14 = "?w13 @ [SaveFig (JStr ''second'')]"
  have h1: "json_load ?L ''config.json'' (ext start) = (Inr (JObj two_jobs_config), ?w0)"
    by (simp add: recording_lib_def record_call_def start_def)
  have h2: "map_of two_jobs_config ''inputs'' = Some (JArr (map JObj ?es))"
    by (simp add: two_jobs_config_def)
  have h3: "?es \<noteq> []"
    by simp
  have f1: "spec_field (last ?es) ''plot_title'' = JStr ''second''"
    by (simp add: spec_field_def second_entry_def)
  have f2: "spec_field (last ?es) ''command_read_out'' = JStr ''At-risk properties: ''"
    by (simp add: spec_field_def second_entry_def)
  have f3: "spec_field (last ?es) ''risk_layer_path'' = JStr ''risk2.geojson''"
    by (simp add: spec_field_def second_entry_def)
  have f4: "spec_field (last ?es) ''asset_layer_path'' = JStr ''assets2.geojson''"
    by (simp add: spec_field_def second_entry_def)
  have p3: "read_file ?L (spec_field (last ?es) ''risk_layer_path'') ?w0
              = (Inr one_feature_layer, ?w1)"
    unfolding f3 by (simp add: recording_lib_def record_call_def)
  have p4: "read_file ?L (spec_field (last ?es) ''asset_layer_path'') ?w1
              = (Inr one_feature_layer, ?w2)"
    unfolding f4 by (simp add: recording_lib_def record_call_def)
  have p5: "to_crs ?L one_feature_layer (crs one_feature_layer) ?w2 = (Inr ?g, ?w3)"
    by (simp add: recording_lib_def record_call_def)
  have p6: "overlay_intersection ?L ?g one_feature_layer ?w3 = (Inr ?g, ?w4)"
    by (simp add: recording_lib_def record_call_def)
  have p7: "to_file_geojson ?L ?g (''second'' @ ''.json'') ?w4 = (Inr (), ?w5)"
    by (simp add: recording_lib_def record_call_def)
  have p8: "subplots ?L (12, 10) ?w5 = (Inr (), ?w6)"
    by (simp add: recording_lib_def record_call_def)
  have p9: "plot ?L one_feature_layer ()
              \<lparr>color = ''blue'', alpha = Some (2 / 5), edgecolor = Some ''k'',
               markersize = None, label = ''Flood Risk Area''\<rparr> ?w6 = (Inr (), ?w7)"
    by (simp add: recording_lib_def record_call_def)
  have p10: "plot ?L ?g ()
              \<lparr>color = ''gray'', alpha = None, edgecolor = None,
               markersize = Some 10, label = ''All Properties''\<rparr> ?w7 = (Inr (), ?w8)"
    by (simp add: recording_lib_def record_call_def)
  have p11: "plot ?L ?g ()
              \<lparr>color = ''red'', alpha = None, edgecolor = None,
               markersize = Some 15, label = ''At-Risk Properties''\<rparr> ?w8 = (Inr (), ?w9)"
    by (simp add: recording_lib_def record_call_def)
  have p12: "add_basemap_osm ?L () ?w9 = (Inr (), ?w10)"
    by (simp add: recording_lib_def record_call_def)
  have p13: "set_title ?L () (JStr ''second'') ?w10 = (Inr (), ?w11)"
    by (simp add: recording_lib_def record_call_def)
  have p14: "set_axis_off ?L () ?w11 = (Inr (), ?w12)"
    by (simp add: recording_lib_def record_call_def)
  have p15: "legend ?L ?w12 = (Inr (), ?w13)"
    by (simp add: recording_lib_def record_call_def)
  have p16: "savefig ?L (JStr ''second'') ?w13 = (Inr (), ?w14)"
    by (simp add: recording_lib_def record_call_def)
  have c: "str_nat (length (features one_feature_layer)) = ''1''"
    by (simp add: one_feature_layer_def str_nat.simps [of "Suc 0"] digit_char_def)
  from main_processes_only_last_descriptor [OF h1 h2 h3]
  have "\<forall>title prefix risk_layer_gdf asset_gdf0 asset_gdf at_risk_properties ax r
          x1 x2 x3 x4 x5 x6 x7 x8 x9 x10 x11 x12 x13 x14.
          spec_field (last ?es) ''plot_title'' = JStr title \<longrightarrow>
          spec_field (last ?es) ''command_read_out'' = JStr prefix \<longrightarrow>
          read_file ?L (spec_field (last ?es) ''risk_layer_path'') ?w0
            = (Inr risk_layer_gdf, x1) \<longrightarrow>
          read_file ?L (spec_field (last ?es) ''asset_layer_path'') x1
            = (Inr asset_gdf0, x2) \<longrightarrow>
          to_crs ?L asset_gdf0 (crs risk_layer_gdf) x2 = (Inr asset_gdf, x3) \<longrightarrow>
          overlay_intersection ?L asset_gdf risk_layer_gdf x3
            = (Inr at_risk_properties, x4) \<longrightarrow>
          to_file_geojson ?L at_risk_properties (title @ ''.json'') x4 = (Inr (), x5) \<longrightarrow>
          subplots ?L (12, 10) x5 = (Inr ax, x6) \<longrightarrow>
          plot ?L risk_layer_gdf ax
            \<lparr>color = ''blue'', alpha = Some (2 / 5), edgecolor = Some ''k'',
             markersize = None, label = ''Flood Risk Area''\<rparr> x6 = (Inr (), x7) \<longrightarrow>
          plot ?L asset_gdf ax
            \<lparr>color = ''gray'', alpha = None, edgecolor = None,
             markersize = Some 10, label = ''All Properties''\<rparr> x7 = (Inr (), x8) \<longrightarrow>
          plot ?L at_risk_properties ax
            \<lparr>color = ''red'', alpha = None, edgecolor = None,
             markersize = Some 15, label = ''At-Risk Properties''\<rparr> x8 = (Inr (), x9) \<longrightarrow>
          add_basemap_osm ?L ax x9 = (Inr (), x10) \<longrightarrow>
          set_title ?L ax (JStr title) x10 = (Inr (), x11) \<longrightarrow>
          set_axis_off ?L ax x11 = (Inr (), x12) \<longrightarrow>
          legend ?L x12 = (Inr (), x13) \<longrightarrow>
          savefig ?L (JStr title) x13 = (r, x14) \<longrightarrow>
          main ?L start
            = (r, start\<lparr>stdout := stdout start
                              @ [prefix @ str_nat (length (features at_risk_properties))],
                    ext := x14\<rparr>)"
    by (elim conjE)
  from this [rule_format, OF f1 f2 p3 p4 p5 p6 p7 p8 p9 p10 p11 p12 p13 p14 p15 p16]
  show ?thesis by (simp add: start_def c)
qed

text \<open>
  C10. When the configuration loads as an object whose \<open>inputs\<close> key is absent or
  holds the empty array, \<^verbatim>\<open>main\<close> ends with UnboundLocalError for \<^verbatim>\<open>plot_title\<close>, raised
  where the output path is built. Nothing has been printed, and the outside world is
  the one the loading of the configuration left: no layer was read, no file written
  and no image rendered, whatever the libraries would have done.
\<close>

theorem main_empty_inputs_unbound_local:
  assumes "json_load L ''config.json'' (ext s) = (Inr (JObj config), x')"
    and "map_of config ''inputs'' = None \<or> map_of config ''inputs'' = Some (JArr [])"
  shows "main L s = (Inl (UnboundLocalError ''plot_title''), s\<lparr>ext := x'\<rparr>)"
proof -
  have "extract_config L ''config.json'' (ext s) = (Inr (map spec_descriptor []), x')"
    using assms by (intro extract_config_objs) auto
  from main_after_extract [OF this] show ?thesis
    by (simp add: main_body_unbound)
qed

theorem main_empty_inputs_unbound_local_witness:
  "main (recording_lib (JObj [(''inputs'', JArr [])])) start
     = (Inl (UnboundLocalError ''plot_title''),
        \<lparr>stdout = [], ext = [JsonLoad ''config.json'']\<rparr>)
   \<and> main (recording_lib (JObj [])) start
     = (Inl (UnboundLocalError ''plot_title''),
        \<lparr>stdout = [], ext = [JsonLoad ''config.json'']\<rparr>)"
proof -
  have a1: "json_load (recording_lib (JObj [(''inputs'', JArr [])])) ''config.json'' (ext start)
              = (Inr (JObj [(''inputs'', JArr [])]), [JsonLoad ''config.json''])"
    by (simp add: recording_lib_def record_call_def start_def)
  have a2: "map_of [(''inputs'', JArr [])] ''inputs'' = None
            \<or> map_of [(''inputs'', JArr [])] ''inputs'' = Some (JArr [])"
    by simp
  have b1: "json_load (recording_lib (JObj [])) ''config.json'' (ext start)
              = (Inr (JObj []), [JsonLoad ''config.json''])"
    by (simp add: recording_lib_def record_call_def start_def)
  have b2: "map_of ([] :: (string \<times> json) list) ''inputs'' = None
            \<or> map_of ([] :: (string \<times> json) list) ''inputs'' = Some (JArr [])"
    by simp
  show ?thesis
    using main_empty_inputs_unbound_local [OF a1 a2] main_empty_inputs_unbound_local [OF b1 b2]
    by (simp add: start_def)
qed

section \<open>The Report Printer\<close>

lemma digit_cases:
  assumes "d < 10"
  shows "d = 0 \<or> d = 1 \<or> d = 2 \<or> d = 3 \<or> d = 4 \<or> d = 5 \<or> d = 6 \<or> d = 7 \<or> d = 8 \<or> d = (9::nat)"
  using assms by arith

lemma digit_char_digit: "d < 10 \<Longrightarrow> digit_char d \<in> set ''0123456789''"
  using digit_cases [of d] by (auto simp: digit_char_def)

lemma digit_val_digit_char: "d < 10 \<Longrightarrow> digit_val (digit_char d) = d"
  using digit_cases [of d] by (auto simp: digit_val_def digit_char_def)

lemma digit_char_zero_iff: "d < 10 \<Longrightarrow> digit_char d = CHR ''0'' \<longleftrightarrow> d = 0"
  using digit_cases [of d] by (auto simp: digit_char_def)

lemma str_nat_nonempty: "str_nat n \<noteq> []"
  by (subst str_nat.simps) simp

lemma str_nat_digits: "c \<in> set (str_nat n) \<Longrightarrow> c \<in> set ''0123456789''"
proof (induction n rule: str_nat.induct)
  case (1 n)
  show ?case
  proof (cases "n < 10")
    case True
    with "1.prems" show ?thesis
      using digit_char_digit [of n] by (simp add: str_nat.simps [of n])
  next
    case False
    with "1.prems" have "c \<in> set (str_nat (n div 10)) \<or> c = digit_char (n mod 10)"
      by (auto simp: str_nat.simps [of n])
    then show ?thesis
      using "1.IH" [OF False] digit_char_digit [of "n mod 10"] by auto
  qed
qed

lemma decimal_value_snoc: "decimal_value (ds @ [c]) = 10 * decimal_value ds + digit_val c"
  by (simp add: decimal_value_def)

lemma decimal_value_str_nat: "decimal_value (str_nat n) = n"
proof (induction n rule: str_nat.induct)
  case (1 n)
  show ?case
  proof (cases "n < 10")
    case True
    then show ?thesis
      by (simp add: str_nat.simps [of n] decimal_value_def digit_val_digit_char)
  next
    case False
    then show ?thesis
      using "1.IH" [OF False]
      by (simp add: str_nat.simps [of n] decimal_value_snoc digit_val_digit_char)
  qed
qed

lemma hd_str_nat: "0 < n \<Longrightarrow> hd (str_nat n) \<noteq> CHR ''0''"
proof (induction n rule: str_nat.induct)
  case (1 n)
  show ?case
  proof (cases "n < 10")
    case True
    with "1.prems" show ?thesis
      by (simp add: str_nat.simps [of n] digit_char_zero_iff)
  next
    case False
    then have "0 < n div 10" by simp
    with "1.IH" [OF False] have "hd (str_nat (n div 10)) \<noteq> CHR ''0''" by simp
    with False show ?thesis
      by (simp add: str_nat.simps [of n] hd_append str_nat_nonempty)
  qed
qed

lemma str_nat_zero: "str_nat 0 = ''0''"
  by (simp add: str_nat.simps [of 0] digit_char_def)

lemma str_nat_decimal: "is_decimal_of (str_nat n) n"
  unfolding is_decimal_of_def
  using str_nat_nonempty [of n] str_nat_digits [of _ n] decimal_value_str_nat [of n]
    hd_str_nat [of n] str_nat_zero
  by (cases "n = 0") auto

lemma report_str:
  "report (Some (JStr prefix)) g s =
     (Inr (), s\<lparr>stdout := stdout s @ [prefix @ str_nat (length (features g))]\<rparr>)"
  by (simp add: report_def bind_io_def lift_res_def bind_res_def read_local_def py_print_def
      py_str_len)

text \<open>
  C5. When \<^verbatim>\<open>command_read_out\<close> is bound to a string, the print of line 121 succeeds and
  appends exactly one line to the output: the prefix immediately followed, with nothing
  between, by \<^verbatim>\<open>str\<close> of the number of features of the at-risk collection; and that
  string is the decimal representation of the count (decimal digits only, no leading
  zero, of that value).
\<close>

theorem report_line_is_prefix_then_decimal_count:
  "report (Some (JStr prefix)) g s
     = (Inr (), s\<lparr>stdout := stdout s @ [prefix @ str_nat (length (features g))]\<rparr>)
   \<and> is_decimal_of (str_nat (length (features g))) (length (features g))"
  by (simp only: report_str str_nat_decimal simp_thms)

theorem report_line_is_prefix_then_decimal_count_witness:
  "report (Some (JStr ''At-risk properties: '')) two_feature_layer start
     = (Inr (), \<lparr>stdout = [''At-risk properties: 2''], ext = []\<rparr>)
   \<and> is_decimal_of ''2'' 2"
proof -
  have n: "length (features two_feature_layer) = 2"
    by (simp add: two_feature_layer_def)
  have d: "str_nat 2 = ''2''"
    by (simp add: str_nat.simps [of 2] digit_char_def)
  show ?thesis
    using report_line_is_prefix_then_decimal_count
      [of "''At-risk properties: ''" two_feature_layer start]
    by (simp add: n d start_def)
qed

end
